theory Spec2Isabelle
  imports
    Complex_Main
    "HOL-Library.Char_ord"
    "HOL-Library.List_Lexorder"
    "HOL-Library.Product_Lexorder"
    "HOL-Library.Multiset"
begin

section \<open>Cells, labels and Python strings\<close>

text \<open>
  The dashboard \<^verbatim>\<open>app_vendedores.py\<close> reads a spreadsheet into a pandas data frame.
  A cell is a string, a number or the missing value (NaN).  Numbers are exact rationals
  here: the rounding of float64 arithmetic and its infinities are outside the model.
  A column label is any such value as well (a header can be a number); only labels
  that are strings take part in the column mapping.
\<close>

datatype cell = Missing | Str string | Num rat

type_synonym label = cell

text \<open>
  Strings are UTF-8 byte lists.  \<open>py_lower\<close> and \<open>py_strip\<close> are \<^verbatim>\<open>str.lower()\<close> and
  \<^verbatim>\<open>str.strip()\<close> on ASCII and the Latin-1 supplement (the two-byte sequences led by
  0xC3 and 0xC2); they leave other code points as they are, where Python's methods
  follow the whole Unicode tables.  They serve to run the code on concrete headers in
  that range.
\<close>

definition ascii_upper :: "char \<Rightarrow> bool" where
  "ascii_upper c = (CHR ''A'' \<le> c \<and> c \<le> CHR ''Z'')"

definition latin1_upper :: "char \<Rightarrow> bool" where
  "latin1_upper d = (CHR 0x80 \<le> d \<and> d \<le> CHR 0x9E \<and> d \<noteq> CHR 0x97)"

definition shift32 :: "char \<Rightarrow> char" where
  "shift32 c = char_of (of_char c + (32::nat))"

fun py_lower :: "string \<Rightarrow> string" where
  "py_lower [] = []"
| "py_lower [c] = [if ascii_upper c then shift32 c else c]"
| "py_lower (c # d # cs) =
     (if c = CHR 0xC3 \<and> latin1_upper d then c # shift32 d # py_lower cs
      else (if ascii_upper c then shift32 c else c) # py_lower (d # cs))"

definition ascii_space :: "char \<Rightarrow> bool" where
  "ascii_space c =
     ((CHR 0x09 \<le> c \<and> c \<le> CHR 0x0D) \<or> (CHR 0x1C \<le> c \<and> c \<le> CHR 0x20))"

definition latin1_space :: "char \<Rightarrow> char \<Rightarrow> bool" where
  "latin1_space c d = (c = CHR 0xC2 \<and> (d = CHR 0x85 \<or> d = CHR 0xA0))"

fun lstrip :: "string \<Rightarrow> string" where
  "lstrip [] = []"
| "lstrip [c] = (if ascii_space c then [] else [c])"
| "lstrip (c # d # cs) =
     (if ascii_space c then lstrip (d # cs)
      else if latin1_space c d then lstrip cs
      else c # d # cs)"

text \<open>The same scan from the right end, on the reversed bytes.\<close>

fun rstrip_rev :: "string \<Rightarrow> string" where
  "rstrip_rev [] = []"
| "rstrip_rev [d] = (if ascii_space d then [] else [d])"
| "rstrip_rev (d # c # cs) =
     (if ascii_space d then rstrip_rev (c # cs)
      else if latin1_space c d then rstrip_rev cs
      else d # c # cs)"

definition py_strip :: "string \<Rightarrow> string" where
  "py_strip s = rev (rstrip_rev (rev (lstrip s)))"

section \<open>Column mapper\<close>

text \<open>
  \<^verbatim>\<open>cols = [c for c in df.columns if isinstance(c, str)]\<close>
\<close>

fun cols :: "label list \<Rightarrow> string list" where
  "cols [] = []"
| "cols (Str s # ls) = s # cols ls"
| "cols (_ # ls) = cols ls"

text \<open>
  \<^verbatim>\<open>lookup = {c.lower().strip(): c for c in cols}\<close>: a dictionary filled in column
  order, so a later column with the same normalised name replaces an earlier one.
  \<^verbatim>\<open>str.lower\<close> and \<^verbatim>\<open>str.strip\<close> are the interpreter's; \<open>lookup_by\<close> takes them as
  the parameters \<open>lower\<close> and \<open>strip\<close>, and statements about every header are made
  for every such pair.  \<open>lookup\<close> is the dictionary with \<open>py_lower\<close> and \<open>py_strip\<close>;
  it runs the examples, whose headers are ASCII.
\<close>

definition lookup_by ::
  "(string \<Rightarrow> string) \<Rightarrow> (string \<Rightarrow> string) \<Rightarrow> string list \<Rightarrow> (string \<rightharpoonup> string)" where
  "lookup_by lower strip cs = fold (\<lambda>c m. m(strip (lower c) \<mapsto> c)) cs Map.empty"

definition lookup :: "string list \<Rightarrow> (string \<rightharpoonup> string)" where
  "lookup cs = lookup_by py_lower py_strip cs"

text \<open>
  \<^verbatim>\<open>def guess(keys): for k in keys: if k in lookup: return lookup[k]; return None\<close>.
  The keyword is looked up as it is written.
\<close>

fun guess :: "(string \<rightharpoonup> string) \<Rightarrow> string list \<Rightarrow> string option" where
  "guess lk [] = None"
| "guess lk (k # ks) = (if lk k \<noteq> None then lk k else guess lk ks)"

definition keys_region :: "string list" where
  "keys_region = [''regi'' @ [CHR 0xC3, CHR 0xB3] @ ''n'', ''region'', ''zona'', ''area'']"

definition keys_vendedor :: "string list" where
  "keys_vendedor = [''vendedor'', ''ejecutivo'', ''asesor'', ''salesperson'', ''nombre'',
     ''nombre vendedor'', ''vendedores'']"

definition keys_unid :: "string list" where
  "keys_unid = [''unidades vendidas'', ''unidades'', ''qty'', ''cantidad'']"

definition keys_ventas :: "string list" where
  "keys_ventas = [''ventas totales'', ''ventas'', ''monto'', ''sales'', ''importe'']"

definition keys_fecha :: "string list" where
  "keys_fecha = [''fecha'', ''date'']"

text \<open>
  A select box returns the option at the given index, and nothing when it has no
  options.  \<^verbatim>\<open>cols.index(g)\<close> is the first position of \<open>g\<close>; the source calls it
  only when \<open>g\<close> is in \<open>cols\<close>.
\<close>

definition selectbox :: "string list \<Rightarrow> nat \<Rightarrow> string option" where
  "selectbox opts i = (if opts = [] then None else Some (opts ! i))"

fun index :: "string list \<Rightarrow> string \<Rightarrow> nat" where
  "index [] x = 0"
| "index (y # ys) x = (if y = x then 0 else Suc (index ys x))"

definition default_index :: "string list \<Rightarrow> string option \<Rightarrow> nat" where
  "default_index cs g =
     (case g of None \<Rightarrow> 0 | Some c \<Rightarrow> if c \<in> set cs then index cs c else 0)"

text \<open>Python truth of an optional string: \<open>None\<close> and the empty string are false.\<close>

fun truthy :: "string option \<Rightarrow> bool" where
  "truthy None = False"
| "truthy (Some s) = (s \<noteq> [])"

text \<open>The selections of the sidebar: one raw column per role, and the date switch.\<close>

record mapping =
  c_region :: "string option"
  c_vend :: "string option"
  c_unid :: "string option"
  c_ventas :: "string option"
  use_fecha :: bool
  c_fecha :: "string option"

text \<open>The selections when the user changes nothing (lines 41 to 52).\<close>

definition default_mapping :: "label list \<Rightarrow> mapping" where
  "default_mapping ls =
     (let cs = cols ls;
          lk = lookup cs;
          g_region = guess lk keys_region;
          g_vendedor = guess lk keys_vendedor;
          g_unid = guess lk keys_unid;
          g_ventas = guess lk keys_ventas;
          g_fecha = guess lk keys_fecha;
          use = truthy g_fecha
      in \<lparr>c_region = selectbox cs (default_index cs g_region),
          c_vend = selectbox cs (default_index cs g_vendedor),
          c_unid = selectbox cs (default_index cs g_unid),
          c_ventas = selectbox cs (default_index cs g_ventas),
          use_fecha = use,
          c_fecha = (if use then selectbox cs (if use then default_index cs g_fecha else 0)
                     else None)\<rparr>)"

text \<open>
  \<^verbatim>\<open>rename_map = {c_region:"region", c_vend:"vendedor", c_unid:"unidades", c_ventas:"ventas"}\<close>
  and \<^verbatim>\<open>if use_fecha and c_fecha: rename_map[c_fecha] = "fecha"\<close>: a dictionary, so a key
  written twice keeps the value written last.
\<close>

definition rename_map :: "mapping \<Rightarrow> (string option \<rightharpoonup> string)" where
  "rename_map mp =
     (let m = [c_region mp \<mapsto> ''region'', c_vend mp \<mapsto> ''vendedor'',
               c_unid mp \<mapsto> ''unidades'', c_ventas mp \<mapsto> ''ventas'']
      in if use_fecha mp \<and> truthy (c_fecha mp) then m(c_fecha mp \<mapsto> ''fecha'') else m)"

text \<open>
  A data frame is its columns in order, each a label with its cells.
  \<^verbatim>\<open>df.rename(columns=rename_map)\<close> replaces every label that is a key of the
  dictionary and leaves the others.
\<close>

type_synonym table = "(label \<times> cell list) list"

definition rename_label :: "(string option \<rightharpoonup> string) \<Rightarrow> label \<Rightarrow> label" where
  "rename_label m l =
     (case l of Str s \<Rightarrow> (case m (Some s) of Some n \<Rightarrow> Str n | None \<Rightarrow> l) | _ \<Rightarrow> l)"

definition rename :: "(string option \<rightharpoonup> string) \<Rightarrow> table \<Rightarrow> table" where
  "rename m df = map (\<lambda>(l, cells). (rename_label m l, cells)) df"

section \<open>Type normaliser\<close>

text \<open>
  \<^verbatim>\<open>pd.to_numeric(column, errors="coerce")\<close>.  The parser is the library's; its grammar
  for a string cell is modelled as: optional blanks, an optional sign, digits with an
  optional point (at least one digit), an optional exponent, optional blanks.  The
  value is the exact decimal.  Empty and unparseable strings (among them the spellings
  of NaN) give no number.  The spellings of infinity, which the library reads as
  float infinities, have no rational value and are not covered.
\<close>

datatype errors_mode = Raise | Coerce

datatype error = KeyError string | TypeError | ValueError | MissingRequired "string set"

definition c_space :: "char \<Rightarrow> bool" where
  "c_space c = (c = CHR 0x20 \<or> (CHR 0x09 \<le> c \<and> c \<le> CHR 0x0D))"

definition is_digit :: "char \<Rightarrow> bool" where
  "is_digit c = (CHR ''0'' \<le> c \<and> c \<le> CHR ''9'')"

definition digits_val :: "string \<Rightarrow> nat" where
  "digits_val ds = foldl (\<lambda>a c. 10 * a + (of_char c - 48)) 0 ds"

definition take_sign :: "string \<Rightarrow> bool \<times> string" where
  "take_sign s =
     (case s of
        c # cs \<Rightarrow> if c = CHR ''-'' then (True, cs) else if c = CHR ''+'' then (False, cs)
                  else (False, s)
      | [] \<Rightarrow> (False, s))"

definition parse_exponent :: "string \<Rightarrow> (int \<times> string) option" where
  "parse_exponent s =
     (case s of
        c # cs \<Rightarrow>
          if c = CHR ''e'' \<or> c = CHR ''E'' then
            (let (neg, t) = take_sign cs; ds = takeWhile is_digit t
             in if ds = [] then None
                else Some (if neg then - int (digits_val ds) else int (digits_val ds),
                           dropWhile is_digit t))
          else Some (0, s)
      | [] \<Rightarrow> Some (0, s))"

definition scale10 :: "rat \<Rightarrow> int \<Rightarrow> rat" where
  "scale10 x e = (if 0 \<le> e then x * 10 ^ nat e else x / 10 ^ nat (- e))"

definition parse_number :: "string \<Rightarrow> rat option" where
  "parse_number s =
     (let (neg, t) = take_sign (dropWhile c_space s);
          ip = takeWhile is_digit t;
          t1 = dropWhile is_digit t;
          (fp, t2) = (case t1 of
                        c # cs \<Rightarrow> if c = CHR ''.'' then (takeWhile is_digit cs, dropWhile is_digit cs)
                                  else ([], t1)
                      | [] \<Rightarrow> ([], t1))
      in if ip = [] \<and> fp = [] then None
         else (case parse_exponent t2 of
                 None \<Rightarrow> None
               | Some (e, t3) \<Rightarrow>
                   if dropWhile c_space t3 \<noteq> [] then None
                   else (let m = scale10 (of_nat (digits_val (ip @ fp))) (e - int (length fp))
                         in Some (if neg then - m else m))))"

text \<open>One cell: a number stays, a string is parsed, the missing value stays missing.\<close>

definition to_numeric_cell :: "errors_mode \<Rightarrow> cell \<Rightarrow> error + cell" where
  "to_numeric_cell mode c =
     (case c of
        Missing \<Rightarrow> Inr Missing
      | Num n \<Rightarrow> Inr (Num n)
      | Str s \<Rightarrow>
          (case parse_number s of
             Some n \<Rightarrow> Inr (Num n)
           | None \<Rightarrow> if s = [] \<or> mode = Coerce then Inr Missing else Inl ValueError))"

fun to_numeric :: "errors_mode \<Rightarrow> cell list \<Rightarrow> error + cell list" where
  "to_numeric mode [] = Inr []"
| "to_numeric mode (c # cs) =
     (case to_numeric_cell mode c of
        Inl e \<Rightarrow> Inl e
      | Inr v \<Rightarrow> (case to_numeric mode cs of Inl e \<Rightarrow> Inl e | Inr vs \<Rightarrow> Inr (v # vs)))"

text \<open>The spec's \<open>coerce_numeric\<close> is the call with \<^verbatim>\<open>errors="coerce"\<close> of lines 58 and 59.\<close>

definition coerce_numeric :: "cell list \<Rightarrow> error + cell list" where
  "coerce_numeric column = to_numeric Coerce column"

text \<open>
  \<^verbatim>\<open>df[name] = pd.to_numeric(df[name], errors="coerce")\<close>: \<^verbatim>\<open>df[name]\<close> raises KeyError
  when no column has the label, and is a data frame when several have it, which
  \<^verbatim>\<open>to_numeric\<close> refuses with TypeError.
\<close>

definition labels :: "table \<Rightarrow> label list" where
  "labels df = map fst df"

definition set_numeric :: "string \<Rightarrow> table \<Rightarrow> error + table" where
  "set_numeric name df =
     (case filter (\<lambda>(l, cells). l = Str name) df of
        [] \<Rightarrow> Inl (KeyError name)
      | [(l, cells)] \<Rightarrow>
          (case coerce_numeric cells of
             Inl e \<Rightarrow> Inl e
           | Inr vs \<Rightarrow> Inr (map (\<lambda>(l', cells'). if l' = Str name then (l', vs) else (l', cells')) df))
      | _ \<Rightarrow> Inl TypeError)"

text \<open>
  Lines 66 to 70: \<^verbatim>\<open>needed\<close> is a set, and the message lists the needed names that
  are no column label, in the set's iteration order, which Python leaves open; the
  model keeps the set of names.
\<close>

definition needed :: "string set" where
  "needed = {''region'', ''vendedor'', ''unidades'', ''ventas''}"

definition missing :: "label list \<Rightarrow> string set" where
  "missing ls = Set.filter (\<lambda>c. Str c \<notin> set ls) needed"

text \<open>
  Lines 54 to 70 in order: rename, coerce \<open>unidades\<close>, coerce \<open>ventas\<close>, convert
  \<open>fecha\<close> when present (several \<open>fecha\<close> columns make \<^verbatim>\<open>to_datetime\<close> raise
  ValueError; the date values themselves are not modelled), then the check of the
  required columns, which stops the run with the error message.
\<close>

definition map_columns :: "table \<Rightarrow> mapping \<Rightarrow> error + table" where
  "map_columns raw mp =
     (case set_numeric ''unidades'' (rename (rename_map mp) raw) of
        Inl e \<Rightarrow> Inl e
      | Inr df1 \<Rightarrow>
          (case set_numeric ''ventas'' df1 of
             Inl e \<Rightarrow> Inl e
           | Inr df2 \<Rightarrow>
               if 1 < length (filter (\<lambda>l. l = Str ''fecha'') (labels df2)) then Inl ValueError
               else if missing (labels df2) \<noteq> {} then Inl (MissingRequired (missing (labels df2)))
               else Inr df2))"


section \<open>Filter engine\<close>

text \<open>
  After the mapping the code reads the four canonical columns by name.  From here on
  a data frame is viewed row by row, each row with its \<open>region\<close> and \<open>vendedor\<close>
  cells (never coerced) and its \<open>unidades\<close> and \<open>ventas\<close> (numbers or missing after
  the coercion).
\<close>

record row =
  region :: cell
  vendedor :: cell
  unidades :: "rat option"
  ventas :: "rat option"

definition column :: "table \<Rightarrow> string \<Rightarrow> cell list" where
  "column df name =
     (case filter (\<lambda>(l, cells). l = Str name) df of [] \<Rightarrow> [] | (l, cells) # _ \<Rightarrow> cells)"

definition number :: "cell \<Rightarrow> rat option" where
  "number c = (case c of Num n \<Rightarrow> Some n | _ \<Rightarrow> None)"

definition records :: "table \<Rightarrow> row list" where
  "records df =
     map (\<lambda>(((r, v), u), s). \<lparr>region = r, vendedor = v, unidades = number u, ventas = number s\<rparr>)
       (zip (zip (zip (column df ''region'') (column df ''vendedor''))
          (column df ''unidades'')) (column df ''ventas''))"

text \<open>
  \<^verbatim>\<open>astype(str)\<close>: a string is itself, the missing value is the text \<open>nan\<close>, and a
  number is written as Python writes it, which depends on the column's type; that
  rendering is the parameter \<open>fmt\<close>.
\<close>

definition astype_str :: "(rat \<Rightarrow> string) \<Rightarrow> cell \<Rightarrow> string" where
  "astype_str fmt c = (case c of Missing \<Rightarrow> ''nan'' | Str s \<Rightarrow> s | Num n \<Rightarrow> fmt n)"

definition dropna :: "cell list \<Rightarrow> cell list" where
  "dropna cs = filter (\<lambda>c. c \<noteq> Missing) cs"

text \<open>\<^verbatim>\<open>unique()\<close> keeps the first occurrence of each value, in order of appearance.\<close>

fun unique_acc :: "'a list \<Rightarrow> 'a list \<Rightarrow> 'a list" where
  "unique_acc seen [] = []"
| "unique_acc seen (x # xs) =
     (if x \<in> set seen then unique_acc seen xs else x # unique_acc (x # seen) xs)"

definition unique :: "'a list \<Rightarrow> 'a list" where
  "unique xs = unique_acc [] xs"

text \<open>\<^verbatim>\<open>sorted(s.dropna().astype(str).unique().tolist())\<close>\<close>

definition distinct_values :: "(rat \<Rightarrow> string) \<Rightarrow> cell list \<Rightarrow> string list" where
  "distinct_values fmt cs = sort (unique (map (astype_str fmt) (dropna cs)))"

text \<open>Selecting rows by a boolean series, \<^verbatim>\<open>df[mask]\<close> and \<^verbatim>\<open>df.loc[mask]\<close>.\<close>

definition loc :: "'a list \<Rightarrow> bool list \<Rightarrow> 'a list" where
  "loc df m = map fst (filter snd (zip df m))"

definition reg_opts :: "(rat \<Rightarrow> string) \<Rightarrow> row list \<Rightarrow> string list" where
  "reg_opts fmt df = ''(Todas)'' # distinct_values fmt (map region df)"

definition origen :: "(rat \<Rightarrow> string) \<Rightarrow> row list \<Rightarrow> string \<Rightarrow> row list" where
  "origen fmt df reg_sel =
     (if reg_sel = ''(Todas)'' then df
      else loc df (map (\<lambda>r. astype_str fmt (region r) = reg_sel) df))"

definition vend_opts :: "(rat \<Rightarrow> string) \<Rightarrow> row list \<Rightarrow> string \<Rightarrow> string list" where
  "vend_opts fmt df reg_sel =
     ''(Todos)'' # distinct_values fmt (map vendedor (origen fmt df reg_sel))"

text \<open>
  Lines 85 to 88: the mask starts all true and is narrowed by each selection that is
  not the no-filter entry.
\<close>

definition mask :: "(rat \<Rightarrow> string) \<Rightarrow> row list \<Rightarrow> string \<Rightarrow> string \<Rightarrow> bool list" where
  "mask fmt df reg_sel vend_sel =
     (let m0 = map (\<lambda>r. True) df;
          m1 = (if reg_sel \<noteq> ''(Todas)''
                then map2 (\<and>) m0 (map (\<lambda>r. astype_str fmt (region r) = reg_sel) df) else m0);
          m2 = (if vend_sel \<noteq> ''(Todos)''
                then map2 (\<and>) m1 (map (\<lambda>r. astype_str fmt (vendedor r) = vend_sel) df) else m1)
      in m2)"

definition df_f :: "(rat \<Rightarrow> string) \<Rightarrow> row list \<Rightarrow> string \<Rightarrow> string \<Rightarrow> row list" where
  "df_f fmt df reg_sel vend_sel = loc df (mask fmt df reg_sel vend_sel)"

section \<open>Aggregator\<close>

text \<open>
  \<^verbatim>\<open>agg(by)\<close> is called with \<open>region\<close> or \<open>vendedor\<close>, the two entries of the radio
  button.
\<close>

datatype dim = By_region | By_vendedor

fun by_col :: "dim \<Rightarrow> row \<Rightarrow> cell" where
  "by_col By_region r = region r"
| "by_col By_vendedor r = vendedor r"

text \<open>A sum skips missing values; the sum of nothing is 0.\<close>

definition nansum :: "rat option list \<Rightarrow> rat" where
  "nansum vs = sum_list (map (\<lambda>v. case v of None \<Rightarrow> 0 | Some x \<Rightarrow> x) vs)"

text \<open>
  \<^verbatim>\<open>groupby(by, dropna=True)\<close> makes one group for each value of the column that is not
  missing, in sorted order: numbers before strings, strings by code point.
\<close>

definition cell_key :: "cell \<Rightarrow> nat \<times> rat \<times> string" where
  "cell_key c = (case c of Num n \<Rightarrow> (0, n, []) | Str s \<Rightarrow> (1, 0, s) | Missing \<Rightarrow> (2, 0, []))"

definition group_keys :: "dim \<Rightarrow> row list \<Rightarrow> cell list" where
  "group_keys b df = sort_key cell_key (unique (dropna (map (by_col b) df)))"

definition groupby_sum :: "dim \<Rightarrow> row list \<Rightarrow> (cell \<times> rat \<times> rat) list" where
  "groupby_sum b df =
     map (\<lambda>k. (k, nansum (map unidades (filter (\<lambda>r. by_col b r = k) df)),
                  nansum (map ventas (filter (\<lambda>r. by_col b r = k) df))))
       (group_keys b df)"

text \<open>
  \<^verbatim>\<open>round(2)\<close> scales by 100, rounds to the nearest integer with ties to the even
  one, and scales back.
\<close>

definition rint :: "rat \<Rightarrow> int" where
  "rint x =
     (let f = \<lfloor>x\<rfloor>; d = x - of_int f
      in if d < 1 / 2 then f else if 1 / 2 < d then f + 1 else if even f then f else f + 1)"

definition round2 :: "rat \<Rightarrow> rat" where
  "round2 x = of_int (rint (x * 100)) / 100"

record group =
  g_key :: cell
  g_unidades :: rat
  g_ventas :: rat
  pct_ventas :: rat

text \<open>
  \<^verbatim>\<open>total = g["ventas"].sum()\<close> and
  \<^verbatim>\<open>g["pct_ventas"] = (g["ventas"]/total*100).round(2) if total else 0\<close>
\<close>

definition agg :: "dim \<Rightarrow> row list \<Rightarrow> group list" where
  "agg b df =
     (let g = groupby_sum b df;
          total = sum_list (map (\<lambda>(k, u, v). v) g)
      in map (\<lambda>(k, u, v).
            \<lparr>g_key = k, g_unidades = u, g_ventas = v,
             pct_ventas = (if total \<noteq> 0 then round2 (v / total * 100) else 0)\<rparr>) g)"


section \<open>Vocabulary of the statements\<close>

text \<open>The rows that \<^verbatim>\<open>groupby(by, dropna=True)\<close> does not exclude.\<close>

definition non_excluded :: "dim \<Rightarrow> row list \<Rightarrow> row list" where
  "non_excluded b df = filter (\<lambda>r. by_col b r \<noteq> Missing) df"

text \<open>
  The roles in the order in which the source writes them into \<^verbatim>\<open>rename_map\<close>, each
  with the raw column selected for it, and the last role that was given a column.
\<close>

definition assignments :: "mapping \<Rightarrow> (string option \<times> string) list" where
  "assignments mp =
     [(c_region mp, ''region''), (c_vend mp, ''vendedor''), (c_unid mp, ''unidades''),
      (c_ventas mp, ''ventas'')]
     @ (if use_fecha mp \<and> truthy (c_fecha mp) then [(c_fecha mp, ''fecha'')] else [])"

fun last_role :: "(string option \<times> string) list \<Rightarrow> string option \<Rightarrow> string option" where
  "last_role [] c = None"
| "last_role ((k, r) # rest) c =
     (case last_role rest c of Some r' \<Rightarrow> Some r' | None \<Rightarrow> if k = c then Some r else None)"

text \<open>The example tables of the spec's scenarios.\<close>

definition scenario :: "row list" where
  "scenario =
     [\<lparr>region = Str ''North'', vendedor = Str ''Ana'', unidades = Some 10, ventas = Some 100\<rparr>,
      \<lparr>region = Str ''North'', vendedor = Str ''Beto'', unidades = Some 5, ventas = Some 50\<rparr>,
      \<lparr>region = Str ''South'', vendedor = Str ''Ana'', unidades = Some 2, ventas = Some 20\<rparr>]"

definition zona_table :: table where
  "zona_table = [(Str ''Zona'', [Str ''Norte'']), (Str ''Nombre'', [Str ''Ana'']),
     (Str ''Unidades'', [Num 3])]"

definition zona_nombre :: table where
  "zona_nombre = [(Str ''Zona'', [Str ''Norte'']), (Str ''Nombre'', [Str ''Ana''])]"

text \<open>A table whose sales add up to zero.\<close>

definition no_sales :: "row list" where
  "no_sales =
     [\<lparr>region = Str ''North'', vendedor = Str ''Ana'', unidades = Some 1, ventas = None\<rparr>,
      \<lparr>region = Str ''South'', vendedor = Str ''Beto'', unidades = Some 2, ventas = Some 0\<rparr>]"

section \<open>Properties of the filter engine\<close>

lemma loc_map: "loc df (map P df) = filter P df"
  by (induction df) (auto simp: loc_def)

lemma map2_map_map: "map2 f (map g xs) (map h xs) = map (\<lambda>x. f (g x) (h x)) xs"
  by (induction xs) auto

lemma mask_eq:
  "mask fmt df reg_sel vend_sel =
     map (\<lambda>r. (reg_sel = ''(Todas)'' \<or> astype_str fmt (region r) = reg_sel) \<and>
        (vend_sel = ''(Todos)'' \<or> astype_str fmt (vendedor r) = vend_sel)) df"
  unfolding mask_def Let_def by (simp add: map2_map_map)

lemma df_f_filter:
  "df_f fmt df reg_sel vend_sel =
     filter (\<lambda>r. (reg_sel = ''(Todas)'' \<or> astype_str fmt (region r) = reg_sel) \<and>
        (vend_sel = ''(Todos)'' \<or> astype_str fmt (vendedor r) = vend_sel)) df"
  unfolding df_f_def mask_eq by (rule loc_map)

text \<open>
  Claim C4.  For every table and every pair of selections, the filtered table
  \<open>df_f\<close> (the spec's \<open>apply_filters\<close>) keeps, in order, exactly the rows for which the
  region selection is the no-filter entry \<open>(Todas)\<close> or equals the row's region as a
  string, and the salesperson selection is the no-filter entry \<open>(Todos)\<close> or equals
  the row's salesperson as a string.
\<close>

theorem df_f_retains_iff:
  "df_f fmt df reg_sel vend_sel =
     filter (\<lambda>r. (reg_sel = ''(Todas)'' \<or> astype_str fmt (region r) = reg_sel) \<and>
        (vend_sel = ''(Todos)'' \<or> astype_str fmt (vendedor r) = vend_sel)) df"
  by (rule df_f_filter)

theorem df_f_retains_iff_witness:
  "df_f (\<lambda>n. []) scenario ''North'' ''(Todos)'' = take 2 scenario \<and>
   df_f (\<lambda>n. []) scenario ''North'' ''Ana'' = take 1 scenario"
  using df_f_retains_iff [of "\<lambda>n. []" scenario "''North''" "''(Todos)''"]
    df_f_retains_iff [of "\<lambda>n. []" scenario "''North''" "''Ana''"]
  by (simp add: scenario_def astype_str_def)

lemma set_unique_acc: "set (unique_acc seen xs) = set xs - set seen"
  by (induction xs arbitrary: seen) auto

lemma distinct_unique_acc: "distinct (unique_acc seen xs)"
  by (induction xs arbitrary: seen) (auto simp: set_unique_acc)

lemma set_unique: "set (unique xs) = set xs"
  by (simp add: unique_def set_unique_acc)

lemma distinct_unique: "distinct (unique xs)"
  by (simp add: unique_def distinct_unique_acc)

lemma set_distinct_values:
  "set (distinct_values fmt cs) = astype_str fmt ` (set cs - {Missing})"
  by (auto simp: distinct_values_def set_unique dropna_def)

lemma origen_filter:
  "reg_sel \<noteq> ''(Todas)'' \<Longrightarrow>
     origen fmt df reg_sel = filter (\<lambda>r. astype_str fmt (region r) = reg_sel) df"
  by (simp add: origen_def loc_map)

text \<open>
  Claim C3.  For every table and every region selection \<open>R\<close> other than the no-filter
  entry, the salesperson options are the no-filter entry \<open>(Todos)\<close> followed by the
  distinct values of the table filtered by region only, and every option after that
  entry is the salesperson, as a string, of a row whose region as a string is \<open>R\<close>.
\<close>

theorem vend_opts_cascade:
  assumes "R \<noteq> ''(Todas)''"
  shows "vend_opts fmt df R =
      ''(Todos)'' # distinct_values fmt (map vendedor (df_f fmt df R ''(Todos)''))
    \<and> (\<forall>v \<in> set (tl (vend_opts fmt df R)).
          \<exists>r \<in> set df. astype_str fmt (region r) = R \<and> vendedor r \<noteq> Missing
             \<and> astype_str fmt (vendedor r) = v)"
proof -
  have o: "origen fmt df R = df_f fmt df R ''(Todos)''"
    using assms by (simp add: origen_filter df_f_filter)
  have "\<exists>r \<in> set df. astype_str fmt (region r) = R \<and> vendedor r \<noteq> Missing
             \<and> astype_str fmt (vendedor r) = v"
    if "v \<in> set (tl (vend_opts fmt df R))" for v
    using that assms by (auto simp: vend_opts_def set_distinct_values origen_filter)
  then show ?thesis by (simp add: vend_opts_def o)
qed

theorem vend_opts_cascade_witness:
  "''North'' \<noteq> ''(Todas)''
   \<and> vend_opts (\<lambda>n. []) scenario ''North'' = [''(Todos)'', ''Ana'', ''Beto'']
   \<and> (\<exists>r \<in> set scenario. astype_str (\<lambda>n. []) (region r) = ''North''
         \<and> vendedor r \<noteq> Missing \<and> astype_str (\<lambda>n. []) (vendedor r) = ''Beto'')"
proof -
  have h: "''North'' \<noteq> ''(Todas)''" by simp
  have v: "vend_opts (\<lambda>n. []) scenario ''North'' = [''(Todos)'', ''Ana'', ''Beto'']"
    by code_simp
  from vend_opts_cascade [OF h, of "\<lambda>n. []" scenario] v
  show ?thesis by simp
qed

section \<open>Properties of the aggregator\<close>

lemma set_group_keys: "set (group_keys b df) = by_col b ` set df - {Missing}"
  by (auto simp: group_keys_def set_unique dropna_def)

lemma distinct_group_keys: "distinct (group_keys b df)"
  by (simp add: group_keys_def distinct_unique)

lemma sum_filter_split:
  fixes f :: "'a \<Rightarrow> rat"
  shows "k \<notin> S \<Longrightarrow>
    sum_list (map f (filter (\<lambda>r. key r = k \<or> key r \<in> S) xs)) =
    sum_list (map f (filter (\<lambda>r. key r = k) xs)) + sum_list (map f (filter (\<lambda>r. key r \<in> S) xs))"
  by (induction xs) auto

lemma sum_groups:
  fixes f :: "'a \<Rightarrow> rat"
  shows "distinct ks \<Longrightarrow>
    sum_list (map (\<lambda>k. sum_list (map f (filter (\<lambda>r. key r = k) xs))) ks) =
    sum_list (map f (filter (\<lambda>r. key r \<in> set ks) xs))"
proof (induction ks)
  case Nil
  then show ?case by simp
next
  case (Cons k ks)
  then have "k \<notin> set ks" by simp
  from sum_filter_split[OF this, of f key xs] Cons show ?case by simp
qed

lemma filter_group_keys:
  "filter (\<lambda>r. by_col b r \<in> set (group_keys b df)) df = non_excluded b df"
  unfolding non_excluded_def by (rule filter_cong) (auto simp: set_group_keys)

lemma total_groupby_sum:
  "sum_list (map (\<lambda>(k, u, v). v) (groupby_sum b df)) = nansum (map ventas (non_excluded b df))"
proof -
  let ?f = "\<lambda>r. case ventas r of None \<Rightarrow> 0 | Some x \<Rightarrow> x"
  have "sum_list (map (\<lambda>(k, u, v). v) (groupby_sum b df)) =
    sum_list (map (\<lambda>k. sum_list (map ?f (filter (\<lambda>r. by_col b r = k) df))) (group_keys b df))"
    by (simp add: groupby_sum_def nansum_def o_def)
  also have "\<dots> = sum_list (map ?f (filter (\<lambda>r. by_col b r \<in> set (group_keys b df)) df))"
    by (rule sum_groups) (rule distinct_group_keys)
  also have "\<dots> = nansum (map ventas (non_excluded b df))"
    by (simp add: filter_group_keys nansum_def o_def)
  finally show ?thesis .
qed

lemma agg_unfold:
  "agg b df = map (\<lambda>k.
      \<lparr>g_key = k,
       g_unidades = nansum (map unidades (filter (\<lambda>r. by_col b r = k) df)),
       g_ventas = nansum (map ventas (filter (\<lambda>r. by_col b r = k) df)),
       pct_ventas = (if nansum (map ventas (non_excluded b df)) \<noteq> 0
          then round2 (nansum (map ventas (filter (\<lambda>r. by_col b r = k) df))
                 / nansum (map ventas (non_excluded b df)) * 100)
          else 0)\<rparr>) (group_keys b df)"
  unfolding agg_def Let_def total_groupby_sum by (simp add: groupby_sum_def o_def)

lemma keys_agg: "map g_key (agg b df) = group_keys b df"
  by (simp add: agg_unfold o_def)

lemma sum_g_ventas:
  "sum_list (map g_ventas (agg b df)) = nansum (map ventas (non_excluded b df))"
proof -
  have "map g_ventas (agg b df) = map (\<lambda>(k, u, v). v) (groupby_sum b df)"
    by (simp add: agg_def Let_def o_def case_prod_beta)
  then show ?thesis by (simp add: total_groupby_sum)
qed

lemma pct_of_agg:
  "a \<in> set (agg b df) \<Longrightarrow> pct_ventas a =
     (if nansum (map ventas (non_excluded b df)) = 0 then 0
      else round2 (g_ventas a / nansum (map ventas (non_excluded b df)) * 100))"
  unfolding agg_unfold by auto

text \<open>
  Claim C1.  For every table and both grouping columns, the aggregate has one row for
  each distinct value of the column that is not missing, and none for the missing
  value, so that a row whose value is missing belongs to no group; each group holds
  the sum of \<open>unidades\<close> and the sum of \<open>ventas\<close> of its rows; and its \<open>pct_ventas\<close> is
  its \<open>ventas\<close> divided by the total, times 100, rounded to 2 decimals, where the total
  is the sum of \<open>ventas\<close> over the rows that are not excluded, and is 0 when that total
  is zero.
\<close>

theorem agg_groups:
  "distinct (map g_key (agg b df))
   \<and> set (map g_key (agg b df)) = by_col b ` set df - {Missing}
   \<and> (\<forall>a \<in> set (agg b df).
        g_key a \<noteq> Missing
      \<and> g_unidades a = nansum (map unidades (filter (\<lambda>r. by_col b r = g_key a) df))
      \<and> g_ventas a = nansum (map ventas (filter (\<lambda>r. by_col b r = g_key a) df))
      \<and> pct_ventas a =
          (if nansum (map ventas (non_excluded b df)) = 0 then 0
           else round2 (g_ventas a / nansum (map ventas (non_excluded b df)) * 100)))"
proof -
  have 1: "distinct (map g_key (agg b df))" by (simp add: keys_agg distinct_group_keys)
  have 2: "set (map g_key (agg b df)) = by_col b ` set df - {Missing}"
    by (simp only: keys_agg set_group_keys)
  have 3: "g_key a \<noteq> Missing
      \<and> g_unidades a = nansum (map unidades (filter (\<lambda>r. by_col b r = g_key a) df))
      \<and> g_ventas a = nansum (map ventas (filter (\<lambda>r. by_col b r = g_key a) df))
      \<and> pct_ventas a =
          (if nansum (map ventas (non_excluded b df)) = 0 then 0
           else round2 (g_ventas a / nansum (map ventas (non_excluded b df)) * 100))"
    if "a \<in> set (agg b df)" for a
  proof -
    from that obtain k where k: "k \<in> set (group_keys b df)" and a: "a = \<lparr>g_key = k,
       g_unidades = nansum (map unidades (filter (\<lambda>r. by_col b r = k) df)),
       g_ventas = nansum (map ventas (filter (\<lambda>r. by_col b r = k) df)),
       pct_ventas = (if nansum (map ventas (non_excluded b df)) \<noteq> 0
          then round2 (nansum (map ventas (filter (\<lambda>r. by_col b r = k) df))
                 / nansum (map ventas (non_excluded b df)) * 100)
          else 0)\<rparr>"
      unfolding agg_unfold by auto
    from k have "k \<noteq> Missing" by (simp add: set_group_keys)
    then show ?thesis by (simp add: a)
  qed
  from 1 2 3 show ?thesis by blast
qed

theorem agg_groups_witness:
  "distinct (map g_key (agg By_region scenario))
   \<and> map g_key (agg By_region scenario) = [Str ''North'', Str ''South'']
   \<and> (\<exists>a \<in> set (agg By_region scenario).
        g_key a = Str ''North'' \<and> g_unidades a = 15 \<and> g_ventas a = 150 \<and> pct_ventas a = 88.24)
   \<and> (\<exists>a \<in> set (agg By_region scenario).
        g_key a = Str ''South'' \<and> g_unidades a = 2 \<and> g_ventas a = 20 \<and> pct_ventas a = 11.76)"
proof -
  have e: "agg By_region scenario =
    [\<lparr>g_key = Str ''North'', g_unidades = 15, g_ventas = 150, pct_ventas = 2206 / 25\<rparr>,
     \<lparr>g_key = Str ''South'', g_unidades = 2, g_ventas = 20, pct_ventas = 294 / 25\<rparr>]"
    by code_simp
  from agg_groups [of By_region scenario]
  have "distinct (map g_key (agg By_region scenario))" by blast
  then show ?thesis by (simp add: e)
qed

text \<open>
  Claim C5.  For every table and both grouping columns, the \<open>ventas\<close> of the aggregate
  rows add up to the sum of \<open>ventas\<close> over the rows of the table whose value in the
  grouping column is not missing.
\<close>

theorem agg_preserves_ventas:
  "sum_list (map g_ventas (agg b df)) =
     nansum (map ventas (filter (\<lambda>r. by_col b r \<noteq> Missing) df))"
  using sum_g_ventas [of b df] by (simp add: non_excluded_def)

theorem agg_preserves_ventas_witness:
  "sum_list (map g_ventas (agg By_region scenario)) = 170"
proof -
  have "nansum (map ventas (filter (\<lambda>r. by_col By_region r \<noteq> Missing) scenario)) = 170"
    by code_simp
  with agg_preserves_ventas [of By_region scenario] show ?thesis by simp
qed

lemma rint_err: "\<bar>of_int (rint x) - x\<bar> \<le> 1 / 2"
proof -
  define f where "f = \<lfloor>x\<rfloor>"
  have b: "of_int f \<le> x" "x < of_int f + 1" unfolding f_def by linarith+
  have r: "rint x = (if x - of_int f < 1 / 2 then f else if 1 / 2 < x - of_int f then f + 1
      else if even f then f else f + 1)"
    by (simp add: rint_def Let_def f_def)
  show ?thesis unfolding r using b by (auto simp: abs_if)
qed

lemma round2_err: "\<bar>round2 x - x\<bar> \<le> 1 / 200"
proof -
  have "round2 x - x = (of_int (rint (x * 100)) - x * 100) / 100"
    by (simp add: round2_def diff_divide_distrib)
  then have "\<bar>round2 x - x\<bar> = \<bar>(of_int (rint (x * 100)) - x * 100) / 100\<bar>"
    by (rule arg_cong)
  also have "\<dots> = \<bar>of_int (rint (x * 100)) - x * 100\<bar> / 100"
    by (simp only: abs_divide abs_numeral)
  also have "\<dots> \<le> (1 / 2) / 100"
    by (rule divide_right_mono) (use rint_err[of "x * 100"] in simp_all)
  finally show ?thesis by simp
qed

lemma sum_abs_bound:
  fixes f g :: "'a \<Rightarrow> rat"
  shows "(\<And>a. a \<in> set xs \<Longrightarrow> \<bar>f a - g a\<bar> \<le> e) \<Longrightarrow>
    \<bar>sum_list (map f xs) - sum_list (map g xs)\<bar> \<le> of_nat (length xs) * e"
proof (induction xs)
  case Nil
  then show ?case by simp
next
  case (Cons a xs)
  have "\<bar>f a - g a\<bar> \<le> e" using Cons.prems by simp
  moreover have "\<bar>sum_list (map f xs) - sum_list (map g xs)\<bar> \<le> of_nat (length xs) * e"
    using Cons by simp
  ultimately show ?case by (simp add: algebra_simps abs_if split: if_splits)
qed

lemma sum_scale:
  fixes f :: "'a \<Rightarrow> rat"
  shows "sum_list (map (\<lambda>a. f a / t * 100) xs) = sum_list (map f xs) / t * 100"
  by (induction xs) (simp_all add: add_divide_distrib distrib_right)

text \<open>
  Claim C6.  For every table and both grouping columns, with the total taken, as the
  aggregator takes it, over the rows that are not excluded: when the total is greater
  than zero, the \<open>pct_ventas\<close> of the aggregate rows add up to 100 up to the rounding
  of each row, that is within 0.005 times the number of rows; when the total is zero,
  \<open>pct_ventas\<close> is 0 in every aggregate row.
\<close>

theorem pct_ventas_sum:
  "(0 < nansum (map ventas (non_excluded b df)) \<longrightarrow>
      \<bar>sum_list (map pct_ventas (agg b df)) - 100\<bar> \<le> of_nat (length (agg b df)) * (1 / 200))
   \<and> (nansum (map ventas (non_excluded b df)) = 0 \<longrightarrow>
      (\<forall>a \<in> set (agg b df). pct_ventas a = 0))"
proof -
  let ?T = "nansum (map ventas (non_excluded b df))"
  have z: "\<forall>a \<in> set (agg b df). pct_ventas a = 0" if "?T = 0"
    using that by (simp add: pct_of_agg)
  have p: "\<bar>sum_list (map pct_ventas (agg b df)) - 100\<bar> \<le> of_nat (length (agg b df)) * (1 / 200)"
    if "0 < ?T"
  proof -
    have "\<bar>pct_ventas a - g_ventas a / ?T * 100\<bar> \<le> 1 / 200" if "a \<in> set (agg b df)" for a
      using pct_of_agg[OF that] \<open>0 < ?T\<close> round2_err[of "g_ventas a / ?T * 100"] by simp
    then have "\<bar>sum_list (map pct_ventas (agg b df))
        - sum_list (map (\<lambda>a. g_ventas a / ?T * 100) (agg b df))\<bar>
        \<le> of_nat (length (agg b df)) * (1 / 200)"
      by (rule sum_abs_bound)
    moreover have "sum_list (map (\<lambda>a. g_ventas a / ?T * 100) (agg b df)) = ?T / ?T * 100"
      by (simp only: sum_scale sum_g_ventas)
    moreover have "?T / ?T * 100 = 100" using \<open>0 < ?T\<close> by simp
    ultimately show ?thesis by simp
  qed
  from z p show ?thesis by blast
qed

theorem pct_ventas_sum_witness:
  "0 < nansum (map ventas (non_excluded By_region scenario))
   \<and> \<bar>sum_list (map pct_ventas (agg By_region scenario)) - 100\<bar> \<le> of_nat 2 * (1 / 200)
   \<and> nansum (map ventas (non_excluded By_region no_sales)) = 0
   \<and> length (agg By_region no_sales) = 2
   \<and> set (map pct_ventas (agg By_region no_sales)) \<subseteq> {0}"
proof -
  have t: "0 < nansum (map ventas (non_excluded By_region scenario))" by code_simp
  have l: "length (agg By_region scenario) = 2" by code_simp
  have z: "nansum (map ventas (non_excluded By_region no_sales)) = 0" by code_simp
  have n: "length (agg By_region no_sales) = 2" by code_simp
  from pct_ventas_sum [of By_region scenario] t l
  have 1: "\<bar>sum_list (map pct_ventas (agg By_region scenario)) - 100\<bar> \<le> of_nat 2 * (1 / 200)"
    by simp
  from pct_ventas_sum [of By_region no_sales] z
  have 2: "set (map pct_ventas (agg By_region no_sales)) \<subseteq> {0}" by auto
  from t 1 z n 2 show ?thesis by blast
qed

section \<open>Properties of the column mapper\<close>







text \<open>The keywords of the source are lower-case and stripped.\<close>

lemma source_keys_normalised:
  "list_all (\<lambda>k. py_strip (py_lower k) = k)
     (keys_region @ keys_vendedor @ keys_unid @ keys_ventas @ keys_fecha)"
  by code_simp



section \<open>Properties of the renaming and of the required-column check\<close>

lemma last_role_map_of: "last_role as = map_of (rev as)"
proof
  fix c show "last_role as c = map_of (rev as) c"
    by (induction as) (auto simp: map_add_def split: option.splits)
qed

lemma rename_map_map_of: "rename_map mp = map_of (rev (assignments mp))"
  by (simp add: rename_map_def assignments_def Let_def)

lemma rename_map_last: "rename_map mp c = last_role (assignments mp) c"
  by (simp only: rename_map_map_of last_role_map_of)

lemma labels_rename:
  "labels (rename m raw) = map (rename_label m) (labels raw)"
  by (simp add: labels_def rename_def o_def case_prod_beta)

lemma zona_run:
  "map_columns zona_table (default_mapping (labels zona_table)) = Inl (MissingRequired {''region''})"
  by code_simp

text \<open>
  Claim C2 at the table of its scenario, with the columns \<open>Zona\<close>, \<open>Nombre\<close>,
  \<open>Unidades\<close> and one row of data, and the default selections: no keyword for the
  sales matches, the select box falls back to the first column, \<open>Zona\<close>, which
  is renamed to \<open>ventas\<close> instead of \<open>region\<close>; the run stops at the check of the
  required columns, whose message names \<open>region\<close> and does not name \<open>ventas\<close>,
  although \<open>ventas\<close> is one of the needed names.
\<close>

theorem zona_error_names_region:
  "map_columns zona_table (default_mapping (labels zona_table))
     = Inl (MissingRequired {''region''})
   \<and> ''ventas'' \<notin> {''region''} \<and> ''ventas'' \<in> needed
   \<and> guess (lookup (cols (labels zona_table))) keys_ventas = None"
proof -
  have 1: "''ventas'' \<in> needed" by code_simp
  have 2: "guess (lookup (cols (labels zona_table))) keys_ventas = None" by code_simp
  from zona_run 1 2 show ?thesis by simp
qed

theorem zona_error_names_region_witness:
  "\<not> (\<exists>S. map_columns zona_table (default_mapping (labels zona_table))
          = Inl (MissingRequired S) \<and> ''ventas'' \<in> S)"
  using zona_error_names_region by simp

text \<open>
  Claim C8 at a table with the columns \<open>Zona\<close> and \<open>Nombre\<close> and the default
  selections: after the renaming the columns \<open>region\<close> and \<open>unidades\<close> are absent, and
  the run ends in line 58 with the KeyError of \<open>unidades\<close>, before the check of the
  required columns is reached.
\<close>

theorem keyerror_before_required_check:
  "map_columns zona_nombre (default_mapping (labels zona_nombre)) = Inl (KeyError ''unidades'')
   \<and> missing (labels (rename (rename_map (default_mapping (labels zona_nombre))) zona_nombre))
       = {''region'', ''unidades''}"
  by code_simp

theorem keyerror_before_required_check_witness:
  "map_columns zona_nombre (default_mapping (labels zona_nombre))
     \<noteq> Inl (MissingRequired {''region'', ''unidades''})"
  using keyerror_before_required_check by simp

text \<open>
  Claim C10.  The rename map gives every raw column the canonical name of the last
  role, in the order region, vendedor, unidades, ventas, fecha, for which it was
  selected, and the renaming replaces each string label by that name and leaves the
  other labels; so a column selected for several roles gets one name, that of the
  last one.  On the table with the columns \<open>Zona\<close>, \<open>Nombre\<close>, \<open>Unidades\<close> every
  role has a selected column, \<open>Zona\<close> is selected for region and for ventas and is
  renamed to \<open>ventas\<close>, and the check of the required columns reports \<open>region\<close> as
  missing.
\<close>

theorem rename_map_last_role_wins:
  "rename_map mp c = last_role (assignments mp) c
   \<and> labels (rename (rename_map mp) raw) =
       map (\<lambda>l. case l of
                  Str s \<Rightarrow> (case last_role (assignments mp) (Some s) of Some n \<Rightarrow> Str n | None \<Rightarrow> l)
                | _ \<Rightarrow> l) (labels raw)
   \<and> c_region (default_mapping (labels zona_table)) = Some ''Zona''
   \<and> c_vend (default_mapping (labels zona_table)) = Some ''Nombre''
   \<and> c_unid (default_mapping (labels zona_table)) = Some ''Unidades''
   \<and> c_ventas (default_mapping (labels zona_table)) = Some ''Zona''
   \<and> labels (rename (rename_map (default_mapping (labels zona_table))) zona_table)
       = [Str ''ventas'', Str ''vendedor'', Str ''unidades'']
   \<and> map_columns zona_table (default_mapping (labels zona_table))
       = Inl (MissingRequired {''region''})"
proof -
  have 1: "labels (rename (rename_map mp) raw) =
       map (\<lambda>l. case l of
                  Str s \<Rightarrow> (case last_role (assignments mp) (Some s) of Some n \<Rightarrow> Str n | None \<Rightarrow> l)
                | _ \<Rightarrow> l) (labels raw)"
    unfolding labels_rename
    by (rule map_cong) (simp_all add: rename_label_def rename_map_last split: cell.splits)
  have 2: "default_mapping (labels zona_table) =
     \<lparr>c_region = Some ''Zona'', c_vend = Some ''Nombre'', c_unid = Some ''Unidades'',
      c_ventas = Some ''Zona'', use_fecha = False, c_fecha = None\<rparr>"
    by code_simp
  have 3: "labels (rename (rename_map (default_mapping (labels zona_table))) zona_table)
       = [Str ''ventas'', Str ''vendedor'', Str ''unidades'']" by code_simp
  from 2 have 4: "c_region (default_mapping (labels zona_table)) = Some ''Zona''"
    "c_vend (default_mapping (labels zona_table)) = Some ''Nombre''"
    "c_unid (default_mapping (labels zona_table)) = Some ''Unidades''"
    "c_ventas (default_mapping (labels zona_table)) = Some ''Zona''"
    by simp_all
  from rename_map_last [of mp c] 1 4 3 zona_run show ?thesis by blast
qed

theorem rename_map_last_role_wins_witness:
  "rename_map (default_mapping (labels zona_table)) (Some ''Zona'') = Some ''ventas''
   \<and> last_role (assignments (default_mapping (labels zona_table))) (Some ''Zona'') = Some ''ventas''"
proof -
  have "last_role (assignments (default_mapping (labels zona_table))) (Some ''Zona'')
      = Some ''ventas''" by code_simp
  with rename_map_last_role_wins [of "default_mapping (labels zona_table)" "Some ''Zona''"]
  show ?thesis by simp
qed

end
